theory Spec2Isabelle
  imports Main "HOL-Library.Sublist"
begin

section \<open>Values shared by the store package\<close>

text \<open>
  Message payloads and file contents are byte strings. A Go \<open>error\<close> is either an error
  raised by a library or the operating system, or \<open>fmt.Errorf("msg: %w", err)\<close>, which
  wraps another error under a message.
\<close>

type_synonym bytes = string

datatype error = Errno string | Errorf string error

datatype Context = NilContext | Background | WithTimeout Context int

datatype logline = Debug string | Info string | Errorx string error | Error string string

text \<open>\<open>fmt.Sprintf("%d", n)\<close> on an integer: the decimal digits, with a minus sign
  when negative.\<close>

definition digit_char :: "nat \<Rightarrow> char" where
  "digit_char d = ''0123456789'' ! (d mod 10)"

fun nat_digits :: "nat \<Rightarrow> string" where
  "nat_digits n = (if n < 10 then [digit_char n] else nat_digits (n div 10) @ [digit_char n])"

declare nat_digits.simps [simp del]

definition fmt_d :: "int \<Rightarrow> string" where
  "fmt_d i = (if i < 0 then CHR ''-'' # nat_digits (nat (- i)) else nat_digits (nat i))"

section \<open>The archival client (NATSClient)\<close>

text \<open>
  Modelled from the spec: the declaration of \<open>config.NATS\<close> is not among the sources;
  its fields are the configuration surface the specification lists. Durations are
  nanoseconds, as \<open>time.Duration\<close> is.
\<close>

record NATS =
  URL :: string
  BucketName :: string
  Username :: string
  Password :: string
  Token :: string
  CredentialsFile :: string
  ConnectTimeout :: int
  RequestTimeout :: int
  DeleteAfterStore :: bool

text \<open>The connection options of nats.go that \<open>newNATSClient\<close> builds. The three
  handlers only log; they carry no data.\<close>

datatype Option =
    nats_Name string
  | nats_Timeout int
  | nats_ReconnectWait int
  | nats_MaxReconnects int
  | nats_DisconnectErrHandler
  | nats_ReconnectHandler
  | nats_ClosedHandler
  | nats_UserCredentials string
  | nats_Token string
  | nats_UserInfo string string

text \<open>
  The library objects are records of their behaviour. A connection reports at each
  instant (unix nanoseconds) whether it is connected; the transport reconnects by itself,
  so the answer changes over time. \<open>Put\<close> of the object store, issued at an instant with
  a context, metadata and the bytes read from the reader, gives the outcome and the instant
  at which the call returns.
\<close>

record Conn =
  connected_at :: "int \<Rightarrow> bool"
  conn_closed :: bool

record ObjectMeta =
  meta_Name :: string
  meta_Description :: string

record ObjectInfo =
  info_Size :: nat
  info_Bucket :: string

record ObjectStore =
  Put :: "Context \<Rightarrow> int \<Rightarrow> ObjectMeta \<Rightarrow> bytes \<Rightarrow> (error + ObjectInfo) \<times> int"

record JetStream =
  js_ObjectStore :: "Context \<Rightarrow> string \<Rightarrow> error + ObjectStore"
  js_CreateObjectStore :: "Context \<Rightarrow> string \<Rightarrow> string \<Rightarrow> error + ObjectStore"

record natslib =
  nats_Connect :: "string \<Rightarrow> Option list \<Rightarrow> error + Conn"
  jetstream_New :: "Conn \<Rightarrow> error + JetStream"

definition ErrBucketNotFound :: error where
  "ErrBucketNotFound = Errno ''nats: bucket not found''"

text \<open>The struct \<open>NATSClient\<close>. A nil \<open>*NATSClient\<close> is \<open>None\<close> of
  \<open>NATSClient option\<close>; the mutex and the logger handle are not state of the model
  (log lines go to the world below).\<close>

record NATSClient =
  conn :: "Conn option"
  js :: "JetStream option"
  os :: ObjectStore
  config :: NATS

definition Config :: "NATSClient option \<Rightarrow> NATS option" where
  "Config nc = (case nc of None \<Rightarrow> None | Some c \<Rightarrow> Some (config c))"

text \<open>\<open>IsConnected\<close> at the instant \<open>t\<close> of the call.\<close>

definition IsConnected :: "NATSClient option \<Rightarrow> int \<Rightarrow> bool" where
  "IsConnected nc t =
     (case nc of None \<Rightarrow> False
      | Some c \<Rightarrow> (case conn c of None \<Rightarrow> False
                   | Some k \<Rightarrow> \<not> conn_closed k \<and> connected_at k t))"

text \<open>\<open>(*NATSClient).Close\<close>: the error it returns and the client afterwards.\<close>

definition NATSClient_Close :: "NATSClient option \<Rightarrow> error option \<times> NATSClient option" where
  "NATSClient_Close nc =
     (case nc of None \<Rightarrow> (None, None)
      | Some c \<Rightarrow> (case conn c of None \<Rightarrow> (None, Some c)
                   | Some k \<Rightarrow> (None, Some (c\<lparr>conn := Some (k\<lparr>conn_closed := True\<rparr>)\<rparr>))))"

subsection \<open>Connection options and authentication\<close>

definition default_timeout :: "int \<Rightarrow> int" where
  "default_timeout d = (if d = 0 then 30 * 1000000000 else d)"

definition auth_options :: "NATS \<Rightarrow> Option list" where
  "auth_options cfg =
     (if CredentialsFile cfg \<noteq> [] then [nats_UserCredentials (CredentialsFile cfg)]
      else if Token cfg \<noteq> [] then [nats_Token (Token cfg)]
      else if Username cfg \<noteq> [] then [nats_UserInfo (Username cfg) (Password cfg)]
      else [])"

definition connect_options :: "NATS \<Rightarrow> Option list" where
  "connect_options cfg =
     [nats_Name ''mox-email-server'',
      nats_Timeout (default_timeout (ConnectTimeout cfg)),
      nats_ReconnectWait (2 * 1000000000),
      nats_MaxReconnects (- 1),
      nats_DisconnectErrHandler,
      nats_ReconnectHandler,
      nats_ClosedHandler] @ auth_options cfg"

fun is_auth :: "Option \<Rightarrow> bool" where
  "is_auth (nats_UserCredentials _) = True"
| "is_auth (nats_Token _) = True"
| "is_auth (nats_UserInfo _ _) = True"
| "is_auth _ = False"

section \<open>Files, the spool directory and the world\<close>

text \<open>
  An open \<open>*os.File\<close>: its name, the bytes of the file it is open on, the read offset
  and whether it has been closed. A nil handle is \<open>None\<close>.
\<close>

record File =
  fname :: string
  fdata :: bytes
  foffset :: nat
  fclosed :: bool

datatype node = RegularFile bytes | Directory

text \<open>The closure of the goroutine that \<open>StoreMessageAsync\<close> starts: it captures the
  client, the message ID and the bytes read before the call returned.\<close>

datatype task = AsyncStore NATSClient int bytes

datatype worker = NotStarted | Running | Exited

text \<open>
  The world the package runs in. \<open>pending\<close> is the directory
  \<open>store/tmp/nats-pending\<close>, \<open>None\<close> when it does not exist, otherwise its entries in
  the order \<open>os.ReadDir\<close> lists them, keyed by base name (so the path
  \<open>filepath.Join(pendingNATSDir, name)\<close> is the entry \<open>name\<close>). \<open>files\<close> are the
  other files, by path. \<open>remote\<close> is the object listing of the bucket.
  \<open>retry_loop\<close> and \<open>spawned\<close> are the goroutines started with \<open>go\<close>. The remaining
  fields are what the code reads from its environment: the clock, the random source, and
  the faults of the file system that the code checks for (a write to a path that fails
  after some bytes, an entry that cannot be opened, a temporary file that cannot be
  created).
\<close>

record world =
  now :: int
  pending :: "(string \<times> node) list option"
  files :: "string \<Rightarrow> bytes option"
  remote :: "(string \<times> bytes) list"
  logs :: "logline list"
  rng :: "nat \<Rightarrow> nat"
  rng_pos :: nat
  write_fault :: "string \<Rightarrow> (nat \<times> error) option"
  open_fault :: "string \<Rightarrow> error option"
  temp_fault :: "error option"
  temp_seq :: nat
  globalNATSClient :: "NATSClient option"
  natsOnce_done :: bool
  retry_loop :: worker
  spawned :: "task list"

definition pendingNATSDir :: string where
  "pendingNATSDir = ''store/tmp/nats-pending''"

definition logf :: "logline \<Rightarrow> world \<Rightarrow> world" where
  "logf l w = w\<lparr>logs := logs w @ [l]\<rparr>"

text \<open>\<open>f.Seek(0, 0)\<close>: fails on a nil or closed handle, otherwise rewinds.\<close>

definition Seek0 :: "File option \<Rightarrow> error + File" where
  "Seek0 msgFile =
     (case msgFile of None \<Rightarrow> Inl (Errno ''invalid argument'')
      | Some f \<Rightarrow> if fclosed f then Inl (Errno ''file already closed'')
                  else Inr (f\<lparr>foffset := 0\<rparr>))"

text \<open>Reading a handle to its end gives the bytes from the offset on and leaves the
  offset at the end. \<open>Put\<close> and \<open>io.Copy\<close> read their reader this way; after a
  failed \<open>Put\<close> the offset is taken to be at the end as well (the source rewinds before
  it reads the handle again).\<close>

definition read_rest :: "File \<Rightarrow> bytes" where
  "read_rest f = drop (foffset f) (fdata f)"

definition at_end :: "File \<Rightarrow> File" where
  "at_end f = f\<lparr>foffset := max (foffset f) (length (fdata f))\<rparr>"

text \<open>\<open>rand.Intn(n)\<close> draws the next value of the random source.\<close>

definition rand_Intn :: "nat \<Rightarrow> world \<Rightarrow> nat \<times> world" where
  "rand_Intn n w = (rng w (rng_pos w) mod n, w\<lparr>rng_pos := Suc (rng_pos w)\<rparr>)"

text \<open>\<open>os.OpenFile(path, O_CREATE|O_WRONLY|O_EXCL, 0o600)\<close> on an entry of the spool
  directory: fails when the directory is missing or the name exists, otherwise adds an
  empty file.\<close>

definition OpenFile_excl :: "string \<Rightarrow> world \<Rightarrow> error + world" where
  "OpenFile_excl name w =
     (case pending w of
        None \<Rightarrow> Inl (Errno ''no such file or directory'')
      | Some es \<Rightarrow>
          if name \<in> fst ` set es then Inl (Errno ''file exists'')
          else Inr (w\<lparr>pending := Some (es @ [(name, RegularFile [])])\<rparr>))"

definition set_entry :: "string \<Rightarrow> bytes \<Rightarrow> (string \<times> node) list \<Rightarrow> (string \<times> node) list" where
  "set_entry name d es = map (\<lambda>(n, x). if n = name then (n, RegularFile d) else (n, x)) es"

text \<open>\<open>io.Copy(out, msgFile)\<close> into the spool entry just created: the rest of the
  handle is written to the entry; a write fault leaves the bytes written before it.\<close>

definition Copy_to :: "string \<Rightarrow> File \<Rightarrow> world \<Rightarrow> error option \<times> File \<times> world" where
  "Copy_to name f w =
     (case write_fault w name of
        None \<Rightarrow> (None, at_end f,
                  w\<lparr>pending := map_option (set_entry name (read_rest f)) (pending w)\<rparr>)
      | Some (k, e) \<Rightarrow> (Some e, at_end f,
                  w\<lparr>pending := map_option (set_entry name (take k (read_rest f))) (pending w)\<rparr>))"

section \<open>Storing a message\<close>

definition objectName :: "int \<Rightarrow> world \<Rightarrow> string" where
  "objectName messageID w = ''msg-'' @ fmt_d messageID @ ''-'' @ fmt_d (now w div 1000000000)"

definition StoreMessage ::
  "NATSClient option \<Rightarrow> Context \<Rightarrow> int \<Rightarrow> File option \<Rightarrow> world
    \<Rightarrow> error option \<times> File option \<times> world" where
  "StoreMessage nc ctx messageID msgFile w =
     (case nc of
        None \<Rightarrow> (None, msgFile, w)
      | Some c \<Rightarrow>
          (case Seek0 msgFile of
             Inl err \<Rightarrow> (Some (Errorf ''seeking to start of message file'' err), msgFile, w)
           | Inr f \<Rightarrow>
               let meta = \<lparr>meta_Name = objectName messageID w,
                           meta_Description = ''Email message ID '' @ fmt_d messageID\<rparr>;
                   r = Put (os c) ctx (now w) meta (read_rest f)
               in (case fst r of
                     Inl err \<Rightarrow>
                       (Some (Errorf ''storing message in NATS object store'' err),
                        Some (at_end f), w\<lparr>now := snd r\<rparr>)
                   | Inr info \<Rightarrow>
                       (None, Some (at_end f),
                        logf (Debug ''message stored in NATS'')
                          (w\<lparr>now := snd r,
                             remote := remote w @ [(objectName messageID w, read_rest f)]\<rparr>)))))"

definition queueName :: "int \<Rightarrow> world \<Rightarrow> string" where
  "queueName messageID w =
     ''msg-'' @ fmt_d messageID @ ''-'' @ fmt_d (now w) @ ''-''
       @ fmt_d (int (fst (rand_Intn 10000 w)))"

text \<open>The spool fallback of \<open>StoreMessageWithQueue\<close>, entered with the error \<open>err\<close>
  of the direct attempt.\<close>

definition enqueue ::
  "error \<Rightarrow> int \<Rightarrow> File option \<Rightarrow> world \<Rightarrow> error option \<times> File option \<times> world" where
  "enqueue err messageID msgFile w =
     (case Seek0 msgFile of
        Inl errSeek \<Rightarrow> (Some (Errorf ''seek for queue'' errSeek), msgFile, w)
      | Inr f \<Rightarrow>
          let name = queueName messageID w;
              w1 = snd (rand_Intn 10000 w)
          in (case OpenFile_excl name w1 of
                Inl errCreate \<Rightarrow> (Some (Errorf ''create queue file'' errCreate), Some f, w1)
              | Inr w2 \<Rightarrow>
                  (case Copy_to name f w2 of
                     (Some errCopy, f', w3) \<Rightarrow>
                        (Some (Errorf ''copy to queue'' errCopy), Some f', w3)
                   | (None, f', w3) \<Rightarrow> (Some err, Some f', w3))))"

definition StoreMessageWithQueue ::
  "NATSClient option \<Rightarrow> Context \<Rightarrow> int \<Rightarrow> File option \<Rightarrow> world
    \<Rightarrow> error option \<times> File option \<times> world" where
  "StoreMessageWithQueue nc ctx messageID msgFile w =
     (case nc of
        None \<Rightarrow> (None, msgFile, w)
      | Some c \<Rightarrow>
          (case StoreMessage nc ctx messageID msgFile w of
             (None, f1, w1) \<Rightarrow> (None, f1, w1)
           | (Some err, f1, w1) \<Rightarrow>
               enqueue err messageID f1
                 (logf (Errorx ''NATS store failed, queueing for retry'' err) w1)))"

subsection \<open>The asynchronous path\<close>

definition ReadFile :: "string \<Rightarrow> world \<Rightarrow> error + bytes" where
  "ReadFile path w =
     (case files w path of None \<Rightarrow> Inl (Errno ''no such file or directory'')
      | Some d \<Rightarrow> Inr d)"

text \<open>\<open>StoreMessageAsync\<close> has no result: it returns the handle as it left it and the
  world, in which the goroutine has been started (added to \<open>spawned\<close>) but has not run.
  The \<open>ctx\<close> of the caller is shadowed inside the goroutine and so never used.\<close>

definition StoreMessageAsync ::
  "NATSClient option \<Rightarrow> Context \<Rightarrow> int \<Rightarrow> File option \<Rightarrow> world \<Rightarrow> File option \<times> world" where
  "StoreMessageAsync nc ctx messageID msgFile w =
     (case nc of
        None \<Rightarrow> (msgFile, w)
      | Some c \<Rightarrow>
          (case Seek0 msgFile of
             Inl err \<Rightarrow>
               (msgFile,
                logf (Errorx ''seeking to start of message file for async NATS storage'' err) w)
           | Inr f \<Rightarrow>
               (case ReadFile (fname f) w of
                  Inl err \<Rightarrow>
                    (Some f,
                     logf (Errorx ''reading message file for async NATS storage'' err) w)
                | Inr data \<Rightarrow>
                    (Some f, w\<lparr>spawned := spawned w @ [AsyncStore c messageID data]\<rparr>))))"

text \<open>\<open>os.CreateTemp("", "nats-tmp-async-*.eml")\<close>: a fresh empty file in the temporary
  directory, open at offset 0, unless the file system refuses.\<close>

definition temp_name :: "world \<Rightarrow> string" where
  "temp_name w = ''/tmp/nats-tmp-async-'' @ fmt_d (int (temp_seq w)) @ ''.eml''"

definition CreateTemp :: "world \<Rightarrow> error + File \<times> world" where
  "CreateTemp w =
     (case temp_fault w of
        Some e \<Rightarrow> Inl e
      | None \<Rightarrow>
          Inr (\<lparr>fname = temp_name w, fdata = [], foffset = 0, fclosed = False\<rparr>,
               w\<lparr>files := (files w)(temp_name w \<mapsto> []), temp_seq := Suc (temp_seq w)\<rparr>))"

text \<open>\<open>f.Write(data)\<close> on the fresh temporary file.\<close>

definition Write_all :: "File \<Rightarrow> bytes \<Rightarrow> world \<Rightarrow> error option \<times> File \<times> world" where
  "Write_all f d w =
     (case write_fault w (fname f) of
        None \<Rightarrow>
          (None, f\<lparr>fdata := d, foffset := length d\<rparr>, w\<lparr>files := (files w)(fname f \<mapsto> d)\<rparr>)
      | Some (k, e) \<Rightarrow>
          (Some e, f\<lparr>fdata := take k d, foffset := length (take k d)\<rparr>,
           w\<lparr>files := (files w)(fname f \<mapsto> take k d)\<rparr>))"

definition Remove_file :: "string \<Rightarrow> world \<Rightarrow> world" where
  "Remove_file path w = w\<lparr>files := (files w)(path := None)\<rparr>"

text \<open>The body of the goroutine, run in the world \<open>w\<close> it finds when it is scheduled.
  The result of \<open>f.Seek\<close> and that of \<open>StoreMessageWithQueue\<close> are dropped, as in the
  source.\<close>

definition async_ctx :: Context where
  "async_ctx = WithTimeout Background (30 * 1000000000)"

definition run_async :: "task \<Rightarrow> world \<Rightarrow> world" where
  "run_async t w =
     (case t of AsyncStore c messageID data \<Rightarrow>
        (case CreateTemp w of
           Inl err \<Rightarrow> logf (Errorx ''cannot create temp file for async NATS storage'' err) w
         | Inr (f, w1) \<Rightarrow>
             (case Write_all f data w1 of
                (Some err, f1, w2) \<Rightarrow> Remove_file (fname f1) w2
              | (None, f1, w2) \<Rightarrow>
                  let f2 = (case Seek0 (Some f1) of Inl _ \<Rightarrow> f1 | Inr g \<Rightarrow> g);
                      r = StoreMessageWithQueue (Some c) async_ctx messageID (Some f2) w2
                  in Remove_file (fname f1) (snd (snd r)))))"

section \<open>Construction of the client\<close>

text \<open>\<open>%q\<close> of \<open>fmt\<close>: the string in double quotes (the escapes of special
  characters are left out).\<close>

definition fmt_q :: "string \<Rightarrow> string" where
  "fmt_q s = [CHR 0x22] @ s @ [CHR 0x22]"

definition newNATSClient :: "natslib \<Rightarrow> NATS \<Rightarrow> world \<Rightarrow> (error + NATSClient) \<times> world" where
  "newNATSClient lib cfg w =
     (case nats_Connect lib (URL cfg) (connect_options cfg) of
        Inl err \<Rightarrow> (Inl (Errorf ''connecting to NATS'' err), w)
      | Inr k \<Rightarrow>
          (case jetstream_New lib k of
             Inl err \<Rightarrow> (Inl (Errorf ''creating JetStream context'' err), w)
           | Inr j \<Rightarrow>
               let ctx = WithTimeout Background (default_timeout (RequestTimeout cfg));
                   bucket_err = ''creating/accessing object store bucket '' @ fmt_q (BucketName cfg);
                   ok = (\<lambda>s v. (Inr \<lparr>conn = Some k, js = Some j, os = s, config = cfg\<rparr>,
                               logf (Info ''NATS client initialized'') v))
               in (case js_ObjectStore j ctx (BucketName cfg) of
                     Inr s \<Rightarrow> ok s w
                   | Inl err \<Rightarrow>
                       if err = ErrBucketNotFound then
                         (let w1 = logf (Info ''creating NATS object store bucket'') w
                          in case js_CreateObjectStore j ctx (BucketName cfg)
                                  ''Email message storage for mox mail server'' of
                               Inr s \<Rightarrow> ok s w1
                             | Inl err2 \<Rightarrow> (Inl (Errorf bucket_err err2), w1))
                       else (Inl (Errorf bucket_err err), w))))"

text \<open>\<open>InitNATS\<close>: \<open>natsOnce.Do\<close> runs the construction at most once; a failed
  construction assigns nil to the global client.\<close>

definition InitNATS :: "natslib \<Rightarrow> NATS option \<Rightarrow> world \<Rightarrow> error option \<times> world" where
  "InitNATS lib cfg w =
     (case cfg of
        None \<Rightarrow> (None, logf (Debug ''NATS not configured, skipping initialization'') w)
      | Some c \<Rightarrow>
          if natsOnce_done w then (None, w)
          else (case newNATSClient lib c w of
                  (Inl err, w1) \<Rightarrow>
                    (Some err, w1\<lparr>globalNATSClient := None, natsOnce_done := True\<rparr>)
                | (Inr cl, w1) \<Rightarrow>
                    (None, w1\<lparr>globalNATSClient := Some cl, natsOnce_done := True\<rparr>)))"

definition GetNATSClient :: "world \<Rightarrow> NATSClient option" where
  "GetNATSClient w = globalNATSClient w"

section \<open>The retry loop\<close>

text \<open>
  What one pass does to the entries is recorded as it happens: a call of \<open>os.Open\<close>
  on an entry, the return of \<open>StoreMessage\<close> for it, a call of \<open>os.Remove\<close> on it.
\<close>

datatype event = EvOpen string | EvStore string "error option" | EvRemove string

definition ReadDir :: "world \<Rightarrow> error + (string \<times> node) list" where
  "ReadDir w = (case pending w of None \<Rightarrow> Inl (Errno ''no such file or directory'')
                | Some es \<Rightarrow> Inr es)"

text \<open>\<open>os.Open\<close> of a spool entry. Directories are skipped before the call, so the
  third case is never reached from the loop.\<close>

definition Open :: "string \<Rightarrow> world \<Rightarrow> error + File" where
  "Open name w =
     (case pending w of
        None \<Rightarrow> Inl (Errno ''no such file or directory'')
      | Some es \<Rightarrow>
          (case map_of es name of
             None \<Rightarrow> Inl (Errno ''no such file or directory'')
           | Some Directory \<Rightarrow> Inl (Errno ''is a directory'')
           | Some (RegularFile d) \<Rightarrow>
               (case open_fault w name of
                  Some e \<Rightarrow> Inl e
                | None \<Rightarrow> Inr \<lparr>fname = pendingNATSDir @ ''/'' @ name, fdata = d,
                               foffset = 0, fclosed = False\<rparr>)))"

text \<open>\<open>os.Remove(path)\<close> of a spool entry. The source drops its result; the model
  takes the removal of an existing entry to succeed, and that of a missing one to do
  nothing.\<close>

definition Remove :: "string \<Rightarrow> world \<Rightarrow> world" where
  "Remove name w = w\<lparr>pending := map_option (filter (\<lambda>e. fst e \<noteq> name)) (pending w)\<rparr>"

definition retry_ctx :: Context where
  "retry_ctx = WithTimeout Background (30 * 1000000000)"

text \<open>
  The inner \<open>for _, f := range files\<close>. \<open>scan\<close> is
  \<open>fmt.Sscanf(f.Name(), "msg-%d-", &messageID)\<close> of the standard library: the message ID
  when the name parses, \<open>None\<close> when it returns an error. \<open>continue\<close> goes on with the
  rest of the listing, \<open>break\<close> ends the pass.
\<close>

fun process_entries ::
  "(string \<Rightarrow> int option) \<Rightarrow> (string \<times> node) list \<Rightarrow> world \<Rightarrow> event list \<times> world" where
  "process_entries scan [] w = ([], w)"
| "process_entries scan ((name, nd) # fs) w =
     (if nd = Directory then process_entries scan fs w
      else case scan name of
        None \<Rightarrow> process_entries scan fs w
      | Some messageID \<Rightarrow>
          let client = GetNATSClient w in
          if client = None \<or> \<not> IsConnected client (now w) then ([], w)
          else (case Open name w of
                  Inl err \<Rightarrow>
                    (let r = process_entries scan fs w in (EvOpen name # fst r, snd r))
                | Inr file \<Rightarrow>
                    (case StoreMessage client retry_ctx messageID (Some file) w of
                       (None, f', w1) \<Rightarrow>
                         (let r = process_entries scan fs (Remove name w1)
                          in (EvOpen name # EvStore name None # EvRemove name # fst r, snd r))
                     | (Some storeErr, f', w1) \<Rightarrow>
                         (let r = process_entries scan fs w1
                          in (EvOpen name # EvStore name (Some storeErr) # fst r, snd r)))))"

definition Sleep :: "int \<Rightarrow> world \<Rightarrow> world" where
  "Sleep d w = w\<lparr>now := now w + d\<rparr>"

text \<open>One iteration of the outer \<open>for\<close>.\<close>

definition retry_pass :: "(string \<Rightarrow> int option) \<Rightarrow> world \<Rightarrow> event list \<times> world" where
  "retry_pass scan w =
     (case ReadDir w of
        Inl err \<Rightarrow> ([], Sleep (10 * 1000000000) w)
      | Inr fs \<Rightarrow> (let r = process_entries scan fs w
                   in (fst r, Sleep (30 * 1000000000) (snd r))))"

text \<open>\<open>processPendingNATSLoop\<close> has no \<open>return\<close> and no \<open>break\<close> out of the outer
  loop. Its model returns the world at its return, if it ever returns.\<close>

partial_function (option) processPendingNATSLoop ::
  "(string \<Rightarrow> int option) \<Rightarrow> world \<Rightarrow> world option" where
  "processPendingNATSLoop scan w = processPendingNATSLoop scan (snd (retry_pass scan w))"




section \<open>The lifecycle: Init and Close\<close>

text \<open>
  \<open>AuthDB\<close> is the open database handle, nil when \<open>None\<close>; of its tables only the
  pending \<open>AccountRemove\<close> records matter here, as the list of their account names.
  \<open>auth_db_file\<close> is the database on disk. \<open>writer\<close> and \<open>cleaner\<close> are the two
  goroutines of the login attempts. The fields from \<open>db_open_fault\<close> on are what the
  code gets from outside: the failures of \<open>bstore.Open\<close>, of the listing query, of
  \<open>removeAccount\<close> for an account and of \<open>AuthDB.Close\<close>, the configuration
  \<open>mox.Conf.Static.NATS\<close> and the NATS libraries.
\<close>

record DB =
  db_AccountRemove :: "string list"

record system =
  W :: world
  AuthDB :: "DB option"
  auth_db_file :: DB
  writer :: worker
  cleaner :: worker
  cleaner_acks :: nat
  cleanup_runs :: nat
  panics :: nat
  removeAccount_calls :: "string list"
  db_open_fault :: "error option"
  list_fault :: "error option"
  remove_fault :: "string \<Rightarrow> error option"
  close_fault :: "error option"
  Static_NATS :: "NATS option"
  lib :: natslib

definition slog :: "logline \<Rightarrow> system \<Rightarrow> system" where
  "slog l s = s\<lparr>W := logf l (W s)\<rparr>"

text \<open>
  Modelled from the spec: \<open>removeAccount\<close> is not among the sources. It either fails,
  leaving the record for the next start, or retires the record of that account.
\<close>

definition removeAccount :: "string \<Rightarrow> system \<Rightarrow> error option \<times> system" where
  "removeAccount name s =
     (let s1 = s\<lparr>removeAccount_calls := removeAccount_calls s @ [name]\<rparr>
      in case remove_fault s name of
           Some e \<Rightarrow> (Some e, s1)
         | None \<Rightarrow>
             (None, s1\<lparr>AuthDB := map_option
                 (\<lambda>db. db\<lparr>db_AccountRemove := filter (\<lambda>a. a \<noteq> name) (db_AccountRemove db)\<rparr>)
                 (AuthDB s1)\<rparr>))"

text \<open>The loop \<open>for _, removal := range removals\<close> of \<open>Init\<close>.\<close>

fun remove_each :: "string list \<Rightarrow> system \<Rightarrow> system" where
  "remove_each [] s = s"
| "remove_each (a # as) s =
     (case removeAccount a s of
        (Some err, s1) \<Rightarrow> remove_each as (slog (Errorx ''removing old account'' err) s1)
      | (None, s1) \<Rightarrow> remove_each as s1)"

text \<open>
  Modelled from the spec: \<open>startLoginAttemptWriter\<close> is not among the sources; it starts
  the batching writer, which follows the stop and acknowledge protocol.
\<close>

definition startLoginAttemptWriter :: "system \<Rightarrow> system" where
  "startLoginAttemptWriter s = s\<lparr>writer := Running\<rparr>"

definition Init :: "Context \<Rightarrow> system \<Rightarrow> error option \<times> system" where
  "Init ctx s =
     (if AuthDB s \<noteq> None then (Some (Errno ''already initialized''), s)
      else case db_open_fault s of
        Some err \<Rightarrow> (Some err, s)
      | None \<Rightarrow>
          let s1 = s\<lparr>AuthDB := Some (auth_db_file s)\<rparr> in
          (case list_fault s1 of
             Some err \<Rightarrow> (Some (Errorf ''listing scheduled account removals'' err), s1)
           | None \<Rightarrow>
               let s2 = remove_each (db_AccountRemove (auth_db_file s)) s1;
                   s3 = startLoginAttemptWriter s2;
                   s4 = s3\<lparr>cleaner := Running\<rparr>;
                   r = InitNATS (lib s4) (Static_NATS s4) (W s4)
               in (case fst r of
                     Some err \<Rightarrow>
                       (None, s4\<lparr>W := logf (Errorx ''initializing NATS client'' err) (snd r)\<rparr>)
                   | None \<Rightarrow> (None, s4\<lparr>W := snd r\<rparr>))))"

text \<open>
  The goroutine of the cleaner, run against a schedule: for each iteration of its
  \<open>for\<close>, what \<open>LoginAttemptCleanup(ctx)\<close> does (it returns an error or nil, or it
  panics) and which case of the \<open>select\<close> then fires. The deferred function is outside
  the \<open>for\<close>: a panic leaves the loop, the deferred function recovers it, logs it and
  counts it, and the goroutine returns. The rest of the schedule is what the goroutine
  never gets to.
\<close>

datatype outcome = Returns "error option" | Panics string

datatype selected = StopRequest | Tick | CtxDone

definition Check :: "error option \<Rightarrow> string \<Rightarrow> system \<Rightarrow> system" where
  "Check err msg s = (case err of None \<Rightarrow> s | Some e \<Rightarrow> slog (Errorx msg e) s)"

fun cleaner_loop :: "(outcome \<times> selected) list \<Rightarrow> system \<Rightarrow> system" where
  "cleaner_loop [] s = s"
| "cleaner_loop ((r, ev) # sched) s =
     (let s0 = s\<lparr>cleanup_runs := Suc (cleanup_runs s)\<rparr> in
      case r of
        Panics x \<Rightarrow>
          (slog (Error ''unhandled panic in LoginAttemptCleanup'' x) s0)
            \<lparr>panics := Suc (panics s0), cleaner := Exited\<rparr>
      | Returns err \<Rightarrow>
          let s1 = Check err ''cleaning up old historic login attempts'' s0 in
          (case ev of
             StopRequest \<Rightarrow> s1\<lparr>cleaner_acks := Suc (cleaner_acks s1), cleaner := Exited\<rparr>
           | Tick \<Rightarrow> cleaner_loop sched s1
           | CtxDone \<Rightarrow> s1\<lparr>cleaner := Exited\<rparr>))"

text \<open>
  \<open>Close\<close>. A send on a stop channel completes only when the worker is there to receive
  it; the worker then acknowledges and returns. When the worker is not running the send
  blocks for ever and \<open>Close\<close> does not return: \<open>None\<close>. Nothing in \<open>Close\<close> addresses
  the retry loop.
\<close>

definition Close :: "system \<Rightarrow> (error option \<times> system) option" where
  "Close s =
     (case AuthDB s of
        None \<Rightarrow> Some (Some (Errno ''not open''), s)
      | Some db \<Rightarrow>
          if writer s \<noteq> Running then None
          else let s1 = s\<lparr>writer := Exited\<rparr> in
            if cleaner s1 \<noteq> Running then None
            else let s2 = s1\<lparr>cleaner_acks := Suc (cleaner_acks s1), cleaner := Exited\<rparr>;
                     s3 = (case GetNATSClient (W s2) of
                             None \<Rightarrow> s2
                           | Some c \<Rightarrow>
                               (case NATSClient_Close (Some c) of
                                  (Some err, nc) \<Rightarrow>
                                    slog (Errorx ''closing NATS client'' err)
                                      (s2\<lparr>W := (W s2)\<lparr>globalNATSClient := nc\<rparr>\<rparr>)
                                | (None, nc) \<Rightarrow> s2\<lparr>W := (W s2)\<lparr>globalNATSClient := nc\<rparr>\<rparr>))
                 in Some (close_fault s3, s3\<lparr>auth_db_file := db, AuthDB := None\<rparr>))"

section \<open>Notions used to state the properties\<close>

text \<open>The spool fallback succeeds when its three steps do: the seek, the exclusive
  create of the generated name, the copy.\<close>

definition enqueue_succeeds :: "int \<Rightarrow> File option \<Rightarrow> world \<Rightarrow> bool" where
  "enqueue_succeeds messageID msgFile w \<longleftrightarrow>
     \<not> isl (Seek0 msgFile)
     \<and> \<not> isl (OpenFile_excl (queueName messageID w) (snd (rand_Intn 10000 w)))
     \<and> write_fault w (queueName messageID w) = None"

text \<open>The entries on which a pass called \<open>os.Open\<close>, in the order of the calls.\<close>

fun opened :: "event list \<Rightarrow> string list" where
  "opened [] = []"
| "opened (EvOpen n # evs) = n # opened evs"
| "opened (_ # evs) = opened evs"

text \<open>The events that report a successful store.\<close>

fun delivered :: "event \<Rightarrow> bool" where
  "delivered (EvStore n None) = True"
| "delivered _ = False"

text \<open>An entry of the listing is well formed when it is not a directory and its name
  parses to a message ID.\<close>

definition well_formed :: "(string \<Rightarrow> int option) \<Rightarrow> string \<times> node \<Rightarrow> bool" where
  "well_formed scan e \<longleftrightarrow> snd e \<noteq> Directory \<and> scan (fst e) \<noteq> None"

text \<open>The log lines that the removals of \<open>Init\<close> write for the accounts \<open>as\<close>:
  one for each removal that fails, in order.\<close>

definition removal_errors :: "system \<Rightarrow> string list \<Rightarrow> logline list" where
  "removal_errors s as = concat (map (\<lambda>a. case remove_fault s a of None \<Rightarrow> []
     | Some e \<Rightarrow> [Errorx ''removing old account'' e]) as)"

subsection \<open>A concrete world\<close>

text \<open>
  A small installation on which the properties are evaluated: a connected client whose
  object store refuses the payload \<open>bye\<close> and accepts every other one, a spool
  directory with two entries of the expected form, a stray file and a subdirectory, and a
  scanner that parses the two entry names.
\<close>

definition demo_cfg :: NATS where
  "demo_cfg = \<lparr>URL = ''nats://127.0.0.1:4222'', BucketName = ''mox'', Username = ''u'',
     Password = ''p'', Token = ''t'', CredentialsFile = [], ConnectTimeout = 0,
     RequestTimeout = 0, DeleteAfterStore = False\<rparr>"

definition demo_store :: ObjectStore where
  "demo_store = \<lparr>Put = (\<lambda>ctx t meta d.
     if d = ''bye'' then (Inl (Errno ''nats: timeout''), t + 1)
     else (Inr \<lparr>info_Size = length d, info_Bucket = ''mox''\<rparr>, t + 1))\<rparr>"

definition demo_client :: NATSClient where
  "demo_client = \<lparr>conn = Some \<lparr>connected_at = (\<lambda>t. True), conn_closed = False\<rparr>,
     js = None, os = demo_store, config = demo_cfg\<rparr>"

definition demo_world :: world where
  "demo_world = \<lparr>now = 7,
     pending = Some [(''msg-42-5-1'', RegularFile ''hello''), (''notes.txt'', RegularFile ''x''),
                     (''sub'', Directory), (''msg-7-1-1'', RegularFile ''bye'')],
     files = [''/data/42'' \<mapsto> ''bye'', ''/data/43'' \<mapsto> ''hello''],
     remote = [], logs = [], rng = (\<lambda>i. 3), rng_pos = 0,
     write_fault = (\<lambda>p. None), open_fault = (\<lambda>p. None), temp_fault = None, temp_seq = 0,
     globalNATSClient = Some demo_client, natsOnce_done = True,
     retry_loop = Running, spawned = []\<rparr>"

definition demo_file :: File where
  "demo_file = \<lparr>fname = ''/data/42'', fdata = ''bye'', foffset = 0, fclosed = False\<rparr>"

definition demo_mail :: File where
  "demo_mail = \<lparr>fname = ''/data/43'', fdata = ''hello'', foffset = 0, fclosed = False\<rparr>"

definition demo_scan :: "string \<Rightarrow> int option" where
  "demo_scan n = (if n = ''msg-42-5-1'' then Some 42 else if n = ''msg-7-1-1'' then Some 7
                  else if n = ''msg-42-8-3'' then Some 42 else None)"

definition demo_error :: error where
  "demo_error = Errorf ''storing message in NATS object store'' (Errno ''nats: timeout'')"

text \<open>The same installation as a running system, and before its start: two pending
  account removals, of which the first fails, and a NATS server that cannot be reached.\<close>

definition demo_lib :: natslib where
  "demo_lib = \<lparr>nats_Connect = (\<lambda>u opts. Inl (Errno ''nats: no servers available'')),
     jetstream_New = (\<lambda>k. Inl (Errno ''unused''))\<rparr>"

definition demo_system :: system where
  "demo_system = \<lparr>W = demo_world, AuthDB = Some \<lparr>db_AccountRemove = []\<rparr>,
     auth_db_file = \<lparr>db_AccountRemove = []\<rparr>, writer = Running, cleaner = Running,
     cleaner_acks = 0, cleanup_runs = 0, panics = 0, removeAccount_calls = [],
     db_open_fault = None, list_fault = None,
     remove_fault = (\<lambda>a. if a = ''a'' then Some (Errno ''directory in use'') else None),
     close_fault = None, Static_NATS = Some demo_cfg, lib = demo_lib\<rparr>"

definition demo_boot :: system where
  "demo_boot = demo_system\<lparr>
     W := demo_world\<lparr>globalNATSClient := None, natsOnce_done := False, retry_loop := Running\<rparr>,
     AuthDB := None, auth_db_file := \<lparr>db_AccountRemove = [''a'', ''b'']\<rparr>,
     writer := NotStarted, cleaner := NotStarted\<rparr>"

section \<open>Properties of the client\<close>

lemma StoreMessage_pending:
  "StoreMessage nc ctx messageID msgFile w = (r, f', w') \<Longrightarrow> pending w' = pending w"
  by (auto simp: StoreMessage_def logf_def Let_def split: option.splits sum.splits)

lemma StoreMessage_client:
  "StoreMessage nc ctx messageID msgFile w = (r, f', w')
     \<Longrightarrow> globalNATSClient w' = globalNATSClient w"
  by (auto simp: StoreMessage_def logf_def Let_def split: option.splits sum.splits)

lemmas demo_defs = demo_cfg_def demo_store_def demo_client_def demo_world_def demo_file_def
  demo_mail_def demo_scan_def demo_error_def

lemmas eval_defs = StoreMessage_def StoreMessageWithQueue_def enqueue_def Seek0_def
  read_rest_def at_end_def OpenFile_excl_def Copy_to_def set_entry_def rand_Intn_def
  queueName_def objectName_def logf_def fmt_d_def nat_digits.simps digit_char_def Let_def

text \<open>
  C6. With a nil client every operation is a no-op: \<open>StoreMessage\<close>,
  \<open>StoreMessageWithQueue\<close> and \<open>Close\<close> return nil, \<open>StoreMessageAsync\<close> returns
  leaving the world (spool, goroutines, log) as it was, \<open>Config\<close> is nil and
  \<open>IsConnected\<close> is false, for every context, message ID and file handle.
\<close>

theorem nil_client_is_noop:
  "StoreMessage None ctx messageID msgFile w = (None, msgFile, w)
   \<and> StoreMessageWithQueue None ctx messageID msgFile w = (None, msgFile, w)
   \<and> NATSClient_Close None = (None, None)
   \<and> StoreMessageAsync None ctx messageID msgFile w = (msgFile, w)
   \<and> Config None = None
   \<and> IsConnected None t = False"
  by (simp add: StoreMessage_def StoreMessageWithQueue_def NATSClient_Close_def
      StoreMessageAsync_def Config_def IsConnected_def)

theorem nil_client_is_noop_witness:
  "StoreMessageWithQueue None Background 42 None demo_world = (None, None, demo_world)
   \<and> StoreMessageAsync None NilContext 42 (Some demo_file) demo_world
       = (Some demo_file, demo_world)"
  using nil_client_is_noop [of Background 42 None demo_world]
    nil_client_is_noop [of NilContext 42 "Some demo_file" demo_world]
  by simp

text \<open>
  C9. The options passed to \<open>nats.Connect\<close> hold at most one authentication option:
  the credentials file when set, otherwise the token when set, otherwise user name and
  password when the user name is set, otherwise none, whatever else is populated.
\<close>

theorem one_authentication_method:
  "length (filter is_auth (connect_options cfg)) \<le> 1
   \<and> filter is_auth (connect_options cfg) =
       (if CredentialsFile cfg \<noteq> [] then [nats_UserCredentials (CredentialsFile cfg)]
        else if Token cfg \<noteq> [] then [nats_Token (Token cfg)]
        else if Username cfg \<noteq> [] then [nats_UserInfo (Username cfg) (Password cfg)]
        else [])
   \<and> (nats_Connect nl (URL cfg) (connect_options cfg) = Inl err
        \<longrightarrow> fst (newNATSClient nl cfg w) = Inl (Errorf ''connecting to NATS'' err))"
  by (simp add: connect_options_def auth_options_def newNATSClient_def)

theorem one_authentication_method_witness:
  "filter is_auth (connect_options demo_cfg) = [nats_Token ''t'']
   \<and> fst (newNATSClient \<lparr>nats_Connect = (\<lambda>u opts. Inl (Errno ''no servers'')),
                          jetstream_New = (\<lambda>k. Inl (Errno ''unused''))\<rparr> demo_cfg demo_world)
       = Inl (Errorf ''connecting to NATS'' (Errno ''no servers''))"
  using one_authentication_method [of demo_cfg
      "\<lparr>nats_Connect = (\<lambda>u opts. Inl (Errno ''no servers'')),
        jetstream_New = (\<lambda>k. Inl (Errno ''unused''))\<rparr>" "Errno ''no servers''" demo_world]
  by (simp add: demo_cfg_def)

lemma enqueue_ok:
  assumes "enqueue_succeeds messageID msgFile w"
  shows "fst (enqueue err messageID msgFile w) = Some err"
proof -
  from assms obtain f where f: "Seek0 msgFile = Inr f"
    by (cases "Seek0 msgFile") (auto simp: enqueue_succeeds_def)
  from assms obtain w2 where
    w2: "OpenFile_excl (queueName messageID w) (snd (rand_Intn 10000 w)) = Inr w2"
    by (cases "OpenFile_excl (queueName messageID w) (snd (rand_Intn 10000 w))")
       (auto simp: enqueue_succeeds_def)
  have wf: "write_fault w2 (queueName messageID w) = None"
    using assms w2
    by (auto simp: enqueue_succeeds_def OpenFile_excl_def rand_Intn_def
        split: option.splits if_splits)
  show ?thesis
    by (simp add: enqueue_def f w2 Let_def Copy_to_def wf)
qed

text \<open>
  C2. For a non-nil client: when the direct attempt of \<open>StoreMessageWithQueue\<close> fails
  with \<open>e\<close> and the spool fallback (seek, exclusive create, copy) succeeds, the call
  returns exactly \<open>e\<close>; when the direct attempt succeeds it returns nil and the spool
  directory is as before.
\<close>

theorem queue_returns_original_error:
  "(StoreMessage (Some c) ctx messageID msgFile w = (Some e, f1, w1)
      \<and> enqueue_succeeds messageID f1
            (logf (Errorx ''NATS store failed, queueing for retry'' e) w1)
     \<longrightarrow> fst (StoreMessageWithQueue (Some c) ctx messageID msgFile w) = Some e)
   \<and> (StoreMessage (Some c) ctx messageID msgFile w = (None, f1, w1)
     \<longrightarrow> StoreMessageWithQueue (Some c) ctx messageID msgFile w = (None, f1, w1)
         \<and> pending w1 = pending w)"
  by (auto simp: StoreMessageWithQueue_def enqueue_ok dest: StoreMessage_pending)

lemma demo_direct_fails:
  "fst (StoreMessage (Some demo_client) Background 42 (Some demo_file) demo_world)
     = Some demo_error"
  by (simp add: eval_defs demo_defs)

lemma demo_enqueue_succeeds:
  "enqueue_succeeds 42
     (fst (snd (StoreMessage (Some demo_client) Background 42 (Some demo_file) demo_world)))
     (logf (Errorx ''NATS store failed, queueing for retry'' demo_error)
        (snd (snd (StoreMessage (Some demo_client) Background 42 (Some demo_file) demo_world))))"
  by (simp add: enqueue_succeeds_def eval_defs demo_defs)

theorem queue_returns_original_error_witness:
  "fst (StoreMessage (Some demo_client) Background 42 (Some demo_file) demo_world)
     = Some demo_error
   \<and> fst (StoreMessageWithQueue (Some demo_client) Background 42 (Some demo_file) demo_world)
     = Some demo_error"
proof -
  let ?r = "StoreMessage (Some demo_client) Background 42 (Some demo_file) demo_world"
  have h: "?r = (Some demo_error, fst (snd ?r), snd (snd ?r))"
    using demo_direct_fails by (metis prod.collapse)
  show ?thesis
    using queue_returns_original_error
      [of demo_client Background 42 "Some demo_file" demo_world demo_error
          "fst (snd ?r)" "snd (snd ?r)"]
      h demo_enqueue_succeeds demo_direct_fails
    by blast
qed

lemma queueName_logf [simp]: "queueName messageID (logf l w) = queueName messageID w"
  by (simp add: queueName_def logf_def rand_Intn_def)

text \<open>
  C5, as the code has it. When the generated entry name already exists, the exclusive
  create fails: the existing entries are left as they are, one salt has been drawn, and
  \<open>StoreMessageWithQueue\<close> returns the error of the create, wrapped as
  \<open>create queue file\<close>. Nothing is retried.
\<close>

theorem collision_is_returned:
  "StoreMessage (Some c) ctx messageID msgFile w = (Some e, f1, w1)
     \<and> \<not> isl (Seek0 f1) \<and> pending w1 = Some es \<and> queueName messageID w1 \<in> fst ` set es
   \<longrightarrow> fst (StoreMessageWithQueue (Some c) ctx messageID msgFile w)
         = Some (Errorf ''create queue file'' (Errno ''file exists''))
       \<and> pending (snd (snd (StoreMessageWithQueue (Some c) ctx messageID msgFile w)))
         = Some es
       \<and> rng_pos (snd (snd (StoreMessageWithQueue (Some c) ctx messageID msgFile w)))
         = Suc (rng_pos w1)"
proof (intro impI, elim conjE)
  assume sm: "StoreMessage (Some c) ctx messageID msgFile w = (Some e, f1, w1)"
    and seek: "\<not> isl (Seek0 f1)" and p: "pending w1 = Some es"
    and q: "queueName messageID w1 \<in> fst ` set es"
  from seek obtain f where f: "Seek0 f1 = Inr f" by (cases "Seek0 f1") auto
  let ?w = "logf (Errorx ''NATS store failed, queueing for retry'' e) w1"
  have cr: "OpenFile_excl (queueName messageID w1) (snd (rand_Intn 10000 ?w))
              = Inl (Errno ''file exists'')"
    using p q by (simp add: OpenFile_excl_def rand_Intn_def logf_def)
  have eq: "StoreMessageWithQueue (Some c) ctx messageID msgFile w
              = (Some (Errorf ''create queue file'' (Errno ''file exists'')), Some f,
                 snd (rand_Intn 10000 ?w))"
    by (simp add: StoreMessageWithQueue_def sm enqueue_def f cr Let_def)
  show "fst (StoreMessageWithQueue (Some c) ctx messageID msgFile w)
         = Some (Errorf ''create queue file'' (Errno ''file exists''))
       \<and> pending (snd (snd (StoreMessageWithQueue (Some c) ctx messageID msgFile w)))
         = Some es
       \<and> rng_pos (snd (snd (StoreMessageWithQueue (Some c) ctx messageID msgFile w)))
         = Suc (rng_pos w1)"
    using p by (simp add: eq rand_Intn_def logf_def)
qed

text \<open>
  C5 as stated fails: with the entry \<open>msg-42-8-3\<close> already in the spool directory, the
  enqueue of message 42 at instant 8 with salt 3 returns the create error to the caller,
  and the directory holds that one entry, unchanged: no second name was tried.
\<close>

theorem collision_not_retried:
  "fst (StoreMessageWithQueue (Some demo_client) Background 42 (Some demo_file)
          (demo_world\<lparr>pending := Some [(''msg-42-8-3'', RegularFile ''old'')]\<rparr>))
     = Some (Errorf ''create queue file'' (Errno ''file exists''))
   \<and> pending (snd (snd (StoreMessageWithQueue (Some demo_client) Background 42 (Some demo_file)
          (demo_world\<lparr>pending := Some [(''msg-42-8-3'', RegularFile ''old'')]\<rparr>))))
     = Some [(''msg-42-8-3'', RegularFile ''old'')]"
  by (simp add: eval_defs demo_defs)

lemma demo_collision_direct:
  "fst (StoreMessage (Some demo_client) Background 42 (Some demo_file)
          (demo_world\<lparr>pending := Some [(''msg-42-8-3'', RegularFile ''old'')]\<rparr>))
     = Some demo_error"
  by (simp add: eval_defs demo_defs)

lemma demo_collision_state:
  "\<not> isl (Seek0 (fst (snd (StoreMessage (Some demo_client) Background 42 (Some demo_file)
          (demo_world\<lparr>pending := Some [(''msg-42-8-3'', RegularFile ''old'')]\<rparr>)))))
   \<and> pending (snd (snd (StoreMessage (Some demo_client) Background 42 (Some demo_file)
          (demo_world\<lparr>pending := Some [(''msg-42-8-3'', RegularFile ''old'')]\<rparr>))))
       = Some [(''msg-42-8-3'', RegularFile ''old'')]
   \<and> queueName 42 (snd (snd (StoreMessage (Some demo_client) Background 42 (Some demo_file)
          (demo_world\<lparr>pending := Some [(''msg-42-8-3'', RegularFile ''old'')]\<rparr>))))
       \<in> fst ` set [(''msg-42-8-3'', RegularFile ''old'')]"
  by (simp add: eval_defs demo_defs)

theorem collision_is_returned_witness:
  "fst (StoreMessage (Some demo_client) Background 42 (Some demo_file)
          (demo_world\<lparr>pending := Some [(''msg-42-8-3'', RegularFile ''old'')]\<rparr>))
     = Some demo_error
   \<and> fst (StoreMessageWithQueue (Some demo_client) Background 42 (Some demo_file)
          (demo_world\<lparr>pending := Some [(''msg-42-8-3'', RegularFile ''old'')]\<rparr>))
     = Some (Errorf ''create queue file'' (Errno ''file exists''))"
proof -
  let ?w = "demo_world\<lparr>pending := Some [(''msg-42-8-3'', RegularFile ''old'')]\<rparr>"
  let ?r = "StoreMessage (Some demo_client) Background 42 (Some demo_file) ?w"
  have h: "?r = (Some demo_error, fst (snd ?r), snd (snd ?r))"
    using demo_collision_direct by (metis prod.collapse)
  show ?thesis
    using collision_is_returned
      [of demo_client Background 42 "Some demo_file" ?w demo_error
          "fst (snd ?r)" "snd (snd ?r)" "[(''msg-42-8-3'', RegularFile ''old'')]"]
      h demo_collision_state demo_collision_direct
    by blast
qed

section \<open>Properties of the retry loop\<close>

lemma StoreMessage_Get:
  "StoreMessage nc ctx messageID msgFile w = (r, f', w') \<Longrightarrow> GetNATSClient w' = GetNATSClient w"
  by (simp add: GetNATSClient_def StoreMessage_client)

lemma Remove_Get: "GetNATSClient (Remove n w) = GetNATSClient w"
  by (simp add: Remove_def GetNATSClient_def)

lemma IsConnected_not_None: "IsConnected c t \<Longrightarrow> c \<noteq> None"
  by (cases c) (simp_all add: IsConnected_def)

lemma Sleep_simps [simp]:
  "pending (Sleep d w) = pending w" "now (Sleep d w) = now w + d"
  "globalNATSClient (Sleep d w) = globalNATSClient w"
  by (simp_all add: Sleep_def)

lemma not_connected_no_events:
  "\<not> IsConnected (GetNATSClient w) (now w) \<Longrightarrow> process_entries scan fs w = ([], w)"
  by (induction fs) (auto simp: Let_def split: option.splits)

lemma remove_iff_stored:
  "EvRemove n \<in> set (fst (process_entries scan fs w))
     \<longleftrightarrow> EvStore n None \<in> set (fst (process_entries scan fs w))"
proof (induction scan fs w rule: process_entries.induct)
  case (1 scan w)
  then show ?case by simp
next
  case (2 scan name nd fs w)
  then show ?case
    by (auto simp: Let_def split: option.splits sum.splits prod.splits)
qed

lemma map_option_filter_True: "map_option (filter (\<lambda>e. True)) x = x"
  by (cases x) simp_all

lemma pending_after_entries:
  "pending (snd (process_entries scan fs w))
     = map_option (filter (\<lambda>e. EvRemove (fst e) \<notin> set (fst (process_entries scan fs w))))
         (pending w)"
proof (induction scan fs w rule: process_entries.induct)
  case (1 scan w)
  then show ?case by (simp add: option.map_ident)
next
  case (2 scan name nd fs w)
  then show ?case
    by (auto simp: Let_def option.map_ident map_option_filter_True Remove_def option.map_comp
        comp_def conj_commute
        split: option.splits sum.splits prod.splits dest!: StoreMessage_pending
        intro!: option.map_cong filter_cong)
qed

lemma opened_prefix:
  "prefix (opened (fst (process_entries scan fs w))) (map fst (filter (well_formed scan) fs))"
proof (induction scan fs w rule: process_entries.induct)
  case (1 scan w)
  then show ?case by simp
next
  case (2 scan name nd fs w)
  then show ?case
    by (auto simp: Let_def well_formed_def split: option.splits sum.splits prod.splits)
qed

lemma opened_all:
  "\<forall>t. IsConnected (GetNATSClient w) t \<Longrightarrow>
     opened (fst (process_entries scan fs w)) = map fst (filter (well_formed scan) fs)"
proof (induction fs arbitrary: w)
  case Nil
  then show ?case by simp
next
  case (Cons e fs)
  obtain name nd where e: "e = (name, nd)" by (cases e)
  have live: "GetNATSClient w \<noteq> None" "IsConnected (GetNATSClient w) (now w)"
    using Cons.prems IsConnected_not_None by blast+
  show ?case
  proof (cases "well_formed scan e")
    case False
    then show ?thesis using Cons e by (auto simp: well_formed_def)
  next
    case True
    then obtain messageID where wf: "nd \<noteq> Directory" "scan name = Some messageID"
      by (auto simp: well_formed_def e)
    show ?thesis
    proof (cases "Open name w")
      case (Inl err)
      then show ?thesis using Cons True wf live e by (simp add: Let_def)
    next
      case (Inr fl)
      obtain r f' w1 where sm:
        "StoreMessage (GetNATSClient w) retry_ctx messageID (Some fl) w = (r, f', w1)"
        by (cases "StoreMessage (GetNATSClient w) retry_ctx messageID (Some fl) w")
      have g1: "GetNATSClient w1 = GetNATSClient w" using sm by (rule StoreMessage_Get)
      have ih1: "opened (fst (process_entries scan fs w1)) = map fst (filter (well_formed scan) fs)"
        using Cons.IH [of w1] Cons.prems g1 by simp
      have ih2: "opened (fst (process_entries scan fs (Remove name w1)))
                   = map fst (filter (well_formed scan) fs)"
        using Cons.IH [of "Remove name w1"] Cons.prems g1 by (simp add: Remove_Get)
      show ?thesis
        using True wf live e Inr sm ih1 ih2 by (cases r) (simp_all add: Let_def)
    qed
  qed
qed

lemma StoreMessage_remote:
  "StoreMessage (Some c) ctx messageID msgFile w = (r, f', w')
     \<Longrightarrow> length (remote w') = (if r = None then Suc (length (remote w)) else length (remote w))"
  by (auto simp: StoreMessage_def logf_def Let_def split: option.splits sum.splits)

lemma Remove_remote [simp]: "remote (Remove n w) = remote w"
  by (simp add: Remove_def)

lemma remote_after_entries:
  "length (remote (snd (process_entries scan fs w)))
     = length (remote w) + length (filter delivered (fst (process_entries scan fs w)))"
proof (induction fs arbitrary: w)
  case Nil
  then show ?case by simp
next
  case (Cons e fs)
  obtain name nd where e: "e = (name, nd)" by (cases e)
  show ?case
  proof (cases "nd \<noteq> Directory \<and> scan name \<noteq> None \<and> GetNATSClient w \<noteq> None
                 \<and> IsConnected (GetNATSClient w) (now w)")
    case False
    then show ?thesis using Cons.IH [of w] e
      by (cases "scan name") (auto simp: Let_def)
  next
    case True
    then obtain messageID c where wf: "nd \<noteq> Directory" "scan name = Some messageID"
        "GetNATSClient w = Some c" "IsConnected (GetNATSClient w) (now w)"
      by auto
    show ?thesis
    proof (cases "Open name w")
      case (Inl err)
      then show ?thesis using Cons.IH [of w] wf e by (simp add: Let_def)
    next
      case (Inr fl)
      obtain r f' w1 where sm:
        "StoreMessage (Some c) retry_ctx messageID (Some fl) w = (r, f', w1)"
        by (cases "StoreMessage (Some c) retry_ctx messageID (Some fl) w")
      show ?thesis
        using wf e Inr sm StoreMessage_remote [OF sm] Cons.IH [of w1]
          Cons.IH [of "Remove name w1"]
        by (cases r) (simp_all add: Let_def)
    qed
  qed
qed

lemma process_entries_Cons:
  "process_entries scan ((name, nd) # fs) w = process_entries scan fs w
   \<or> process_entries scan ((name, nd) # fs) w = ([], w)
   \<or> process_entries scan ((name, nd) # fs) w
       = (EvOpen name # fst (process_entries scan fs w), snd (process_entries scan fs w))
   \<or> (\<exists>w1. process_entries scan ((name, nd) # fs) w
       = (EvOpen name # EvStore name None # EvRemove name
            # fst (process_entries scan fs (Remove name w1)),
          snd (process_entries scan fs (Remove name w1))))
   \<or> (\<exists>w1 err. process_entries scan ((name, nd) # fs) w
       = (EvOpen name # EvStore name (Some err) # fst (process_entries scan fs w1),
          snd (process_entries scan fs w1)))"
  by (auto simp: Let_def split: option.splits sum.splits prod.splits)

lemma stored_names:
  "EvStore n r \<in> set (fst (process_entries scan fs w)) \<Longrightarrow> n \<in> fst ` set fs"
proof (induction fs arbitrary: w)
  case Nil
  then show ?case by simp
next
  case (Cons e fs)
  obtain name nd where e: "e = (name, nd)" by (cases e)
  show ?case
    using process_entries_Cons [of scan name nd fs w] Cons.prems Cons.IH
    unfolding e by (elim disjE exE) (simp; blast)+
qed

lemma one_outcome:
  "distinct (map fst fs) \<Longrightarrow> EvStore n (Some err) \<in> set (fst (process_entries scan fs w))
     \<Longrightarrow> EvStore n None \<notin> set (fst (process_entries scan fs w))"
proof (induction fs arbitrary: w)
  case Nil
  then show ?case by simp
next
  case (Cons e fs)
  obtain name nd where e: "e = (name, nd)" by (cases e)
  have d: "distinct (map fst fs)" "name \<notin> fst ` set fs"
    using Cons.prems(1) e by auto
  have nm: "\<And>r v. EvStore name r \<notin> set (fst (process_entries scan fs v))"
    using stored_names d(2) by blast
  show ?case
    using process_entries_Cons [of scan name nd fs w] Cons.prems(2) Cons.IH [OF d(1)] nm
    unfolding e by (elim disjE exE) (simp; blast)+
qed

lemma pass_one_outcome:
  "pending w = Some fs \<Longrightarrow> distinct (map fst fs)
     \<Longrightarrow> EvStore n (Some err) \<in> set (fst (retry_pass scan w))
     \<Longrightarrow> EvStore n None \<notin> set (fst (retry_pass scan w))"
  using one_outcome [of fs n err scan w]
  by (simp add: retry_pass_def ReadDir_def Let_def)

lemma pass_not_connected:
  "GetNATSClient w = None \<or> \<not> IsConnected (GetNATSClient w) (now w)
     \<Longrightarrow> fst (retry_pass scan w) = [] \<and> pending (snd (retry_pass scan w)) = pending w"
proof -
  assume "GetNATSClient w = None \<or> \<not> IsConnected (GetNATSClient w) (now w)"
  then have "\<not> IsConnected (GetNATSClient w) (now w)"
    using IsConnected_not_None by blast
  then show ?thesis
    by (cases "pending w") (auto simp: retry_pass_def ReadDir_def Let_def not_connected_no_events)
qed

lemma pass_remove_iff_stored:
  "EvRemove n \<in> set (fst (retry_pass scan w)) \<longleftrightarrow> EvStore n None \<in> set (fst (retry_pass scan w))"
  by (cases "pending w") (simp_all add: retry_pass_def ReadDir_def Let_def remove_iff_stored)

lemma pass_pending:
  "pending (snd (retry_pass scan w))
     = map_option (filter (\<lambda>e. EvRemove (fst e) \<notin> set (fst (retry_pass scan w)))) (pending w)"
proof (cases "pending w")
  case None
  then show ?thesis by (simp add: retry_pass_def ReadDir_def)
next
  case (Some fs)
  then show ?thesis
    using pending_after_entries [of scan fs w]
    by (simp add: retry_pass_def ReadDir_def Let_def)
qed

text \<open>
  C1. In a pass of the retry loop: if the client is absent or not connected, no entry is
  opened or removed (the pass has no events and the spool directory is as before).
  In any pass, \<open>os.Remove\<close> is called on an entry exactly when \<open>StoreMessage\<close> returned
  nil for it, and the directory afterwards holds exactly the entries for which it did
  not; an entry whose attempt failed is among those that stay. Each nil return has put one object
  into the bucket. The entries that are opened are well-formed ones, in listing order,
  and all of them when the client stays connected.
\<close>

theorem retry_pass_retires_only_on_success:
  "((GetNATSClient w = None \<or> \<not> IsConnected (GetNATSClient w) (now w))
      \<longrightarrow> fst (retry_pass scan w) = [] \<and> pending (snd (retry_pass scan w)) = pending w)
   \<and> (\<forall>n. EvRemove n \<in> set (fst (retry_pass scan w))
            \<longleftrightarrow> EvStore n None \<in> set (fst (retry_pass scan w)))
   \<and> pending (snd (retry_pass scan w))
       = map_option (filter (\<lambda>e. EvStore (fst e) None \<notin> set (fst (retry_pass scan w))))
           (pending w)
   \<and> length (remote (snd (retry_pass scan w)))
       = length (remote w) + length (filter delivered (fst (retry_pass scan w)))
   \<and> (\<forall>fs e err. pending w = Some fs \<and> distinct (map fst fs) \<and> e \<in> set fs
           \<and> EvStore (fst e) (Some err) \<in> set (fst (retry_pass scan w))
         \<longrightarrow> e \<in> set (filter (\<lambda>e. EvStore (fst e) None \<notin> set (fst (retry_pass scan w))) fs))
   \<and> (\<forall>fs. pending w = Some fs
         \<longrightarrow> prefix (opened (fst (retry_pass scan w))) (map fst (filter (well_formed scan) fs)))
   \<and> (\<forall>fs. pending w = Some fs \<and> (\<forall>t. IsConnected (GetNATSClient w) t)
         \<longrightarrow> opened (fst (retry_pass scan w)) = map fst (filter (well_formed scan) fs))"
proof (intro conjI allI impI)
  assume "GetNATSClient w = None \<or> \<not> IsConnected (GetNATSClient w) (now w)"
  then show "fst (retry_pass scan w) = []" "pending (snd (retry_pass scan w)) = pending w"
    using pass_not_connected by blast+
next
  fix n
  show "EvRemove n \<in> set (fst (retry_pass scan w))
          \<longleftrightarrow> EvStore n None \<in> set (fst (retry_pass scan w))"
    by (rule pass_remove_iff_stored)
next
  show "pending (snd (retry_pass scan w))
       = map_option (filter (\<lambda>e. EvStore (fst e) None \<notin> set (fst (retry_pass scan w))))
           (pending w)"
    using pass_pending [of scan w] by (simp add: pass_remove_iff_stored)
next
  show "length (remote (snd (retry_pass scan w)))
       = length (remote w) + length (filter delivered (fst (retry_pass scan w)))"
    by (cases "pending w")
       (simp_all add: retry_pass_def ReadDir_def Let_def Sleep_def remote_after_entries)
next
  fix fs e err
  assume "pending w = Some fs \<and> distinct (map fst fs) \<and> e \<in> set fs
           \<and> EvStore (fst e) (Some err) \<in> set (fst (retry_pass scan w))"
  then show "e \<in> set (filter (\<lambda>e. EvStore (fst e) None \<notin> set (fst (retry_pass scan w))) fs)"
    using pass_one_outcome [of w fs "fst e" err scan] by simp
next
  fix fs assume "pending w = Some fs"
  then show "prefix (opened (fst (retry_pass scan w))) (map fst (filter (well_formed scan) fs))"
    by (simp add: retry_pass_def ReadDir_def Let_def opened_prefix)
next
  fix fs assume "pending w = Some fs \<and> (\<forall>t. IsConnected (GetNATSClient w) t)"
  then show "opened (fst (retry_pass scan w)) = map fst (filter (well_formed scan) fs)"
    by (simp add: retry_pass_def ReadDir_def Let_def opened_all)
qed

lemmas pass_defs = retry_pass_def ReadDir_def Open_def Remove_def Sleep_def GetNATSClient_def
  IsConnected_def retry_ctx_def

lemma demo_pass_events:
  "fst (retry_pass demo_scan demo_world)
     = [EvOpen ''msg-42-5-1'', EvStore ''msg-42-5-1'' None, EvRemove ''msg-42-5-1'',
        EvOpen ''msg-7-1-1'', EvStore ''msg-7-1-1'' (Some demo_error)]"
  by (simp add: pass_defs eval_defs demo_defs)

lemma demo_connected: "\<forall>t. IsConnected (GetNATSClient demo_world) t"
  by (simp add: pass_defs demo_defs)

theorem retry_pass_retires_only_on_success_witness:
  "pending (snd (retry_pass demo_scan demo_world))
     = Some [(''notes.txt'', RegularFile ''x''), (''sub'', Directory),
             (''msg-7-1-1'', RegularFile ''bye'')]
   \<and> opened (fst (retry_pass demo_scan demo_world)) = [''msg-42-5-1'', ''msg-7-1-1'']
   \<and> length (remote (snd (retry_pass demo_scan demo_world))) = 1
   \<and> GetNATSClient (demo_world\<lparr>globalNATSClient := None\<rparr>) = None
   \<and> fst (retry_pass demo_scan (demo_world\<lparr>globalNATSClient := None\<rparr>)) = []
   \<and> pending (snd (retry_pass demo_scan (demo_world\<lparr>globalNATSClient := None\<rparr>)))
       = pending demo_world"
proof -
  have p: "pending demo_world
     = Some [(''msg-42-5-1'', RegularFile ''hello''), (''notes.txt'', RegularFile ''x''),
             (''sub'', Directory), (''msg-7-1-1'', RegularFile ''bye'')]"
    by (simp add: demo_world_def)
  have r: "remote demo_world = []"
    by (simp add: demo_world_def)
  have n: "GetNATSClient (demo_world\<lparr>globalNATSClient := None\<rparr>) = None"
    by (simp add: GetNATSClient_def)
  have q: "pending (demo_world\<lparr>globalNATSClient := None\<rparr>) = pending demo_world"
    by simp
  have wf: "map fst (filter (well_formed demo_scan)
       [(''msg-42-5-1'', RegularFile ''hello''), (''notes.txt'', RegularFile ''x''),
             (''sub'', Directory), (''msg-7-1-1'', RegularFile ''bye'')])
       = [''msg-42-5-1'', ''msg-7-1-1'']"
    by (simp add: well_formed_def demo_scan_def)
  show ?thesis
    using retry_pass_retires_only_on_success [of demo_world demo_scan]
      retry_pass_retires_only_on_success [of "demo_world\<lparr>globalNATSClient := None\<rparr>" demo_scan]
      demo_connected n
    by (simp add: p q wf r demo_pass_events demo_error_def)
qed


lemma Sleep_Get [simp]: "GetNATSClient (Sleep d w) = GetNATSClient w"
  by (simp add: GetNATSClient_def)












section \<open>Properties of the lifecycle\<close>

lemma loop_no_result: "processPendingNATSLoop scan w = Some y \<Longrightarrow> False"
  by (rule processPendingNATSLoop.raw_induct [where P = "\<lambda>_ _ _. False"])

lemma loop_never_returns: "processPendingNATSLoop scan w = None"
  using loop_no_result [of scan w] by (cases "processPendingNATSLoop scan w") auto

lemma slog_simps [simp]:
  "cleaner (slog l s) = cleaner s" "writer (slog l s) = writer s"
  "cleaner_acks (slog l s) = cleaner_acks s" "cleanup_runs (slog l s) = cleanup_runs s"
  "panics (slog l s) = panics s" "AuthDB (slog l s) = AuthDB s"
  "logs (W (slog l s)) = logs (W s) @ [l]" "retry_loop (W (slog l s)) = retry_loop (W s)"
  "pending (W (slog l s)) = pending (W s)"
  by (simp_all add: slog_def logf_def)

lemma Check_simps [simp]:
  "cleaner (Check e m s) = cleaner s" "cleaner_acks (Check e m s) = cleaner_acks s"
  by (cases e; simp add: Check_def)+

lemma cleaner_exits_on_cancel:
  "cleaner (cleaner_loop (map (\<lambda>e. (Returns e, Tick)) es @ (Returns err, CtxDone) # sched) s)
     = Exited"
  by (induction es arbitrary: s) (simp_all add: Let_def)

lemma cleaner_exits_on_stop:
  "cleaner (cleaner_loop (map (\<lambda>e. (Returns e, Tick)) es @ (Returns err, StopRequest) # sched) s)
     = Exited"
  by (induction es arbitrary: s) (simp_all add: Let_def)

lemma Close_returns:
  assumes "AuthDB s \<noteq> None" and "Close s = Some (r, s')"
  shows "writer s = Running \<and> cleaner s = Running \<and> writer s' = Exited \<and> cleaner s' = Exited
         \<and> AuthDB s' = None \<and> retry_loop (W s') = retry_loop (W s)"
proof -
  from assms(1) obtain db where db: "AuthDB s = Some db" by auto
  from assms(2) db have run: "writer s = Running" "cleaner s = Running"
    by (auto simp: Close_def Let_def split: if_splits)
  show ?thesis
    using assms(2) db run
    by (cases "globalNATSClient (W s)")
       (auto simp: Close_def Let_def GetNATSClient_def NATSClient_Close_def
          split: option.splits)
qed

text \<open>
  C3, as the code has it. The cleaner leaves its loop at the first \<open>select\<close> that
  finds the context cancelled or a stop request, after any number of ticks. \<open>Close\<close> on
  an open system returns only when writer and cleaner were there to take their stop
  requests, and both have exited when it returns. The retry loop is not reached by
  either signal: \<open>Close\<close> leaves it as it was, and \<open>processPendingNATSLoop\<close> never
  returns, from any world.
\<close>

theorem shutdown_stops_cleaner_not_retry_loop:
  "cleaner (cleaner_loop (map (\<lambda>e. (Returns e, Tick)) es @ (Returns err, CtxDone) # sched) s)
     = Exited
   \<and> cleaner (cleaner_loop (map (\<lambda>e. (Returns e, Tick)) es @ (Returns err, StopRequest) # sched) s)
     = Exited
   \<and> (AuthDB s \<noteq> None \<and> Close s = Some (r, s')
        \<longrightarrow> writer s = Running \<and> cleaner s = Running \<and> writer s' = Exited
            \<and> cleaner s' = Exited \<and> AuthDB s' = None
            \<and> retry_loop (W s') = retry_loop (W s))
   \<and> processPendingNATSLoop scan w = None"
  using cleaner_exits_on_cancel cleaner_exits_on_stop Close_returns loop_never_returns
  by blast

lemmas sys_defs = Close_def GetNATSClient_def NATSClient_Close_def slog_def logf_def Check_def
  Let_def demo_system_def demo_boot_def demo_lib_def

lemma demo_Close:
  "Close demo_system \<noteq> None \<and> fst (the (Close demo_system)) = None
   \<and> writer (snd (the (Close demo_system))) = Exited
   \<and> cleaner (snd (the (Close demo_system))) = Exited
   \<and> retry_loop (W (snd (the (Close demo_system)))) = Running"
  by (simp add: sys_defs demo_defs)

text \<open>
  C3 as stated fails: on the running system \<open>Close\<close> returns with writer and cleaner
  stopped while the retry loop is still running, and the retry loop never returns.
\<close>

theorem retry_loop_outlives_close:
  "Close demo_system \<noteq> None
   \<and> fst (the (Close demo_system)) = None
   \<and> retry_loop (W (snd (the (Close demo_system)))) = Running
   \<and> processPendingNATSLoop demo_scan (W (snd (the (Close demo_system)))) = None"
  using demo_Close loop_never_returns by simp

theorem shutdown_stops_cleaner_not_retry_loop_witness:
  "AuthDB demo_system \<noteq> None
   \<and> Close demo_system = Some (the (Close demo_system))
   \<and> writer (snd (the (Close demo_system))) = Exited
   \<and> cleaner (snd (the (Close demo_system))) = Exited
   \<and> retry_loop (W (snd (the (Close demo_system)))) = retry_loop (W demo_system)
   \<and> cleaner (cleaner_loop [(Returns None, Tick), (Returns None, CtxDone), (Returns None, Tick)]
        demo_system) = Exited
   \<and> processPendingNATSLoop demo_scan demo_world = None"
proof -
  have a: "AuthDB demo_system \<noteq> None" by (simp add: demo_system_def)
  have c: "Close demo_system = Some (fst (the (Close demo_system)), snd (the (Close demo_system)))"
    using demo_Close by (cases "Close demo_system") auto
  show ?thesis
    using shutdown_stops_cleaner_not_retry_loop
        [where es = "[None]" and err = None and sched = "[(Returns None, Tick)]"
           and s = demo_system and r = "fst (the (Close demo_system))"
           and s' = "snd (the (Close demo_system))" and scan = demo_scan and w = demo_world]
      a c
    by simp
qed

text \<open>
  C4, as the code has it. When \<open>LoginAttemptCleanup\<close> panics in an iteration, the
  deferred function recovers the panic, logs it and counts it, and the goroutine of the
  cleaner returns: whatever the schedule holds after that iteration (ticks, a stop
  request) is not handled. The writer, the database handle and the retry loop are as
  before.
\<close>

theorem panic_is_recovered_and_worker_exits:
  "panics (cleaner_loop ((Panics x, ev) # sched) s) = Suc (panics s)
   \<and> logs (W (cleaner_loop ((Panics x, ev) # sched) s))
       = logs (W s) @ [Error ''unhandled panic in LoginAttemptCleanup'' x]
   \<and> cleaner (cleaner_loop ((Panics x, ev) # sched) s) = Exited
   \<and> cleanup_runs (cleaner_loop ((Panics x, ev) # sched) s) = Suc (cleanup_runs s)
   \<and> cleaner_acks (cleaner_loop ((Panics x, ev) # sched) s) = cleaner_acks s
   \<and> writer (cleaner_loop ((Panics x, ev) # sched) s) = writer s
   \<and> AuthDB (cleaner_loop ((Panics x, ev) # sched) s) = AuthDB s
   \<and> retry_loop (W (cleaner_loop ((Panics x, ev) # sched) s)) = retry_loop (W s)
   \<and> cleaner_loop ((Panics x, ev) # sched) s = cleaner_loop [(Panics x, ev)] s"
  by (simp add: Let_def)

theorem panic_is_recovered_and_worker_exits_witness:
  "panics (cleaner_loop [(Panics ''boom'', Tick), (Returns None, StopRequest)] demo_system) = 1
   \<and> cleaner (cleaner_loop [(Panics ''boom'', Tick), (Returns None, StopRequest)] demo_system)
       = Exited
   \<and> cleaner_acks (cleaner_loop [(Panics ''boom'', Tick), (Returns None, StopRequest)]
       demo_system) = 0"
  using panic_is_recovered_and_worker_exits
    [of "''boom''" Tick "[(Returns None, StopRequest)]" demo_system]
  by (simp add: demo_system_def)

text \<open>
  C4 as stated fails: after a panic in the first iteration the two later iterations of
  the schedule, a tick and a stop request, are never run (one run of the cleanup, no
  acknowledgement), and a \<open>Close\<close> after it blocks on the stop channel of the cleaner.
\<close>

theorem cleaner_dead_after_panic:
  "cleanup_runs (cleaner_loop
      [(Panics ''boom'', Tick), (Returns None, Tick), (Returns None, StopRequest)] demo_system) = 1
   \<and> cleaner_acks (cleaner_loop
      [(Panics ''boom'', Tick), (Returns None, Tick), (Returns None, StopRequest)] demo_system) = 0
   \<and> cleaner (cleaner_loop
      [(Panics ''boom'', Tick), (Returns None, Tick), (Returns None, StopRequest)] demo_system)
       = Exited
   \<and> Close (cleaner_loop
      [(Panics ''boom'', Tick), (Returns None, Tick), (Returns None, StopRequest)] demo_system)
       = None"
  by (simp add: sys_defs demo_defs)

section \<open>Properties of the asynchronous path\<close>

text \<open>
  C7. For a non-nil client and a message file that can be rewound and whose path holds
  the bytes \<open>d\<close>: \<open>StoreMessageAsync\<close> returns having started one goroutine whose
  closure holds \<open>d\<close>, and nothing else of the world has changed (no result of the store
  comes back). Whenever the goroutine runs, in whatever world \<open>w'\<close> the caller's file
  has become, the handle it gives to \<open>StoreMessageWithQueue\<close> is a temporary file
  holding exactly \<open>d\<close>, rewound; and if the object store accepts, the object added to the
  bucket is \<open>d\<close>.
\<close>

theorem async_snapshot_before_return:
  "Seek0 msgFile = Inr f \<and> files w (fname f) = Some d \<longrightarrow>
     StoreMessageAsync (Some c) ctx messageID msgFile w
       = (Some f, w\<lparr>spawned := spawned w @ [AsyncStore c messageID d]\<rparr>)
     \<and> (temp_fault w' = None \<and> write_fault w' (temp_name w') = None \<longrightarrow>
          run_async (AsyncStore c messageID d) w'
            = Remove_file (temp_name w')
                (snd (snd (StoreMessageWithQueue (Some c) async_ctx messageID
                   (Some \<lparr>fname = temp_name w', fdata = d, foffset = 0, fclosed = False\<rparr>)
                   (w'\<lparr>temp_seq := Suc (temp_seq w'),
                       files := (files w')(temp_name w' \<mapsto> d)\<rparr>)))))
     \<and> (temp_fault w' = None \<and> write_fault w' (temp_name w') = None
          \<and> fst (Put (os c) async_ctx (now w')
                 \<lparr>meta_Name = objectName messageID w',
                  meta_Description = ''Email message ID '' @ fmt_d messageID\<rparr> d) = Inr info
         \<longrightarrow> remote (run_async (AsyncStore c messageID d) w')
               = remote w' @ [(objectName messageID w', d)])"
proof (intro impI conjI)
  assume h: "Seek0 msgFile = Inr f \<and> files w (fname f) = Some d"
  then show "StoreMessageAsync (Some c) ctx messageID msgFile w
       = (Some f, w\<lparr>spawned := spawned w @ [AsyncStore c messageID d]\<rparr>)"
    by (simp add: StoreMessageAsync_def ReadFile_def)
next
  assume t: "temp_fault w' = None \<and> write_fault w' (temp_name w') = None"
  then show "run_async (AsyncStore c messageID d) w'
            = Remove_file (temp_name w')
                (snd (snd (StoreMessageWithQueue (Some c) async_ctx messageID
                   (Some \<lparr>fname = temp_name w', fdata = d, foffset = 0, fclosed = False\<rparr>)
                   (w'\<lparr>temp_seq := Suc (temp_seq w'),
                       files := (files w')(temp_name w' \<mapsto> d)\<rparr>))))"
    by (simp add: run_async_def CreateTemp_def Write_all_def Seek0_def Let_def)
next
  assume t: "temp_fault w' = None \<and> write_fault w' (temp_name w') = None
          \<and> fst (Put (os c) async_ctx (now w')
                 \<lparr>meta_Name = objectName messageID w',
                  meta_Description = ''Email message ID '' @ fmt_d messageID\<rparr> d) = Inr info"
  then show "remote (run_async (AsyncStore c messageID d) w')
               = remote w' @ [(objectName messageID w', d)]"
    by (simp add: run_async_def CreateTemp_def Write_all_def Seek0_def Let_def
        StoreMessageWithQueue_def StoreMessage_def read_rest_def objectName_def
        Remove_file_def logf_def)
qed

lemmas async_defs = StoreMessageAsync_def ReadFile_def run_async_def CreateTemp_def
  Write_all_def Remove_file_def temp_name_def async_ctx_def

theorem async_snapshot_before_return_witness:
  "Seek0 (Some demo_mail) = Inr demo_mail
   \<and> files demo_world (fname demo_mail) = Some ''hello''
   \<and> spawned (snd (StoreMessageAsync (Some demo_client) Background 43 (Some demo_mail)
                     demo_world))
       = [AsyncStore demo_client 43 ''hello'']
   \<and> remote (run_async (AsyncStore demo_client 43 ''hello'') (demo_world\<lparr>files := Map.empty\<rparr>))
       = [(''msg-43-0'', ''hello'')]"
proof -
  have a: "Seek0 (Some demo_mail) = Inr demo_mail"
    by (simp add: Seek0_def demo_mail_def)
  have b: "files demo_world (fname demo_mail) = Some ''hello''"
    by (simp add: demo_world_def demo_mail_def)
  have c: "temp_fault (demo_world\<lparr>files := Map.empty\<rparr>) = None"
      "write_fault (demo_world\<lparr>files := Map.empty\<rparr>) (temp_name (demo_world\<lparr>files := Map.empty\<rparr>))
         = None"
      "remote (demo_world\<lparr>files := Map.empty\<rparr>) = []"
      "spawned demo_world = []"
    by (simp_all add: demo_world_def)
  have d: "objectName 43 (demo_world\<lparr>files := Map.empty\<rparr>) = ''msg-43-0''"
    by (simp add: eval_defs demo_world_def)
  have e: "fst (Put (os demo_client) async_ctx (now (demo_world\<lparr>files := Map.empty\<rparr>))
                 \<lparr>meta_Name = objectName 43 (demo_world\<lparr>files := Map.empty\<rparr>),
                  meta_Description = ''Email message ID '' @ fmt_d 43\<rparr> ''hello'')
             = Inr \<lparr>info_Size = 5, info_Bucket = ''mox''\<rparr>"
    by (simp add: demo_client_def demo_store_def)
  from async_snapshot_before_return
      [where msgFile = "Some demo_mail" and f = demo_mail and w = demo_world and d = "''hello''"
         and c = demo_client and ctx = Background and messageID = 43
         and w' = "demo_world\<lparr>files := Map.empty\<rparr>"
         and info = "\<lparr>info_Size = 5, info_Bucket = ''mox''\<rparr>"]
      a b c(1,2) e
  have s: "StoreMessageAsync (Some demo_client) Background 43 (Some demo_mail) demo_world
             = (Some demo_mail,
                demo_world\<lparr>spawned := spawned demo_world @ [AsyncStore demo_client 43 ''hello'']\<rparr>)"
    and r: "remote (run_async (AsyncStore demo_client 43 ''hello'')
                      (demo_world\<lparr>files := Map.empty\<rparr>))
             = remote (demo_world\<lparr>files := Map.empty\<rparr>)
                 @ [(objectName 43 (demo_world\<lparr>files := Map.empty\<rparr>), ''hello'')]"
    by blast+
  show ?thesis
    using a b by (simp add: s r c d)
qed

section \<open>Properties of Init\<close>

lemma removeAccount_frame:
  "removeAccount a s = (r, s') \<Longrightarrow>
     W s' = W s \<and> remove_fault s' = remove_fault s \<and> r = remove_fault s a
     \<and> removeAccount_calls s' = removeAccount_calls s @ [a]
     \<and> writer s' = writer s \<and> cleaner s' = cleaner s \<and> lib s' = lib s
     \<and> Static_NATS s' = Static_NATS s"
  by (auto simp: removeAccount_def Let_def split: option.splits)

lemma remove_each_frame:
  "W (remove_each as s) = (W s)\<lparr>logs := logs (W s) @ removal_errors s as\<rparr>
   \<and> removeAccount_calls (remove_each as s) = removeAccount_calls s @ as
   \<and> lib (remove_each as s) = lib s \<and> Static_NATS (remove_each as s) = Static_NATS s"
proof (induction as arbitrary: s)
  case Nil
  then show ?case by (simp add: removal_errors_def)
next
  case (Cons a as)
  obtain r s1 where r: "removeAccount a s = (r, s1)" by (cases "removeAccount a s")
  note fr = removeAccount_frame [OF r]
  show ?case
  proof (cases r)
    case None
    then show ?thesis using r fr Cons.IH [of s1] by (simp add: removal_errors_def)
  next
    case (Some e)
    have rf: "remove_fault (slog (Errorx ''removing old account'' e) s1) = remove_fault s"
      using fr by (simp add: slog_def)
    show ?thesis
      using Some r fr rf Cons.IH [of "slog (Errorx ''removing old account'' e) s1"]
      by (simp add: removal_errors_def slog_def logf_def)
  qed
qed

lemma removal_error_logged:
  "a \<in> set as \<Longrightarrow> remove_fault s a = Some e
     \<Longrightarrow> Errorx ''removing old account'' e \<in> set (removal_errors s as)"
  by (force simp: removal_errors_def)

lemma newNATSClient_logs:
  "fst (newNATSClient nl cfg (w\<lparr>logs := l\<rparr>)) = fst (newNATSClient nl cfg w)
   \<and> set l \<subseteq> set (logs (snd (newNATSClient nl cfg (w\<lparr>logs := l\<rparr>))))"
  by (auto simp: newNATSClient_def Let_def logf_def split: sum.splits)

lemma InitNATS_logs:
  "fst (InitNATS nl cfg (w\<lparr>logs := l\<rparr>)) = fst (InitNATS nl cfg w)
   \<and> set l \<subseteq> set (logs (snd (InitNATS nl cfg (w\<lparr>logs := l\<rparr>))))"
proof (cases cfg)
  case None
  then show ?thesis by (auto simp: InitNATS_def logf_def)
next
  case (Some c)
  obtain r w1 where n: "newNATSClient nl c (w\<lparr>logs := l\<rparr>) = (r, w1)"
    by (cases "newNATSClient nl c (w\<lparr>logs := l\<rparr>)")
  obtain r' w1' where n': "newNATSClient nl c w = (r', w1')"
    by (cases "newNATSClient nl c w")
  have "r = r'" "set l \<subseteq> set (logs w1)"
    using newNATSClient_logs [where nl = nl and cfg = c and w = w and l = l] n n' by auto
  then show ?thesis
    using Some n n' by (cases r') (auto simp: InitNATS_def)
qed

lemma InitNATS_error_no_client:
  "fst (InitNATS nl cfg w) = Some e \<Longrightarrow> globalNATSClient (snd (InitNATS nl cfg w)) = None"
  by (auto simp: InitNATS_def split: option.splits if_splits prod.splits sum.splits)

lemma Init_ok:
  assumes "AuthDB s = None" "db_open_fault s = None" "list_fault s = None"
  defines "as \<equiv> db_AccountRemove (auth_db_file s)"
  defines "l \<equiv> logs (W s) @ removal_errors s as"
  defines "r \<equiv> InitNATS (lib s) (Static_NATS s) ((W s)\<lparr>logs := l\<rparr>)"
  shows "fst (Init ctx s) = None"
    and "removeAccount_calls (snd (Init ctx s)) = removeAccount_calls s @ as"
    and "writer (snd (Init ctx s)) = Running" and "cleaner (snd (Init ctx s)) = Running"
    and "W (snd (Init ctx s))
          = (case fst r of None \<Rightarrow> snd r
             | Some err \<Rightarrow> logf (Errorx ''initializing NATS client'' err) (snd r))"
proof -
  let ?s1 = "s\<lparr>AuthDB := Some (auth_db_file s)\<rparr>"
  have fr: "W (remove_each as ?s1) = (W s)\<lparr>logs := l\<rparr>"
      "removeAccount_calls (remove_each as ?s1) = removeAccount_calls s @ as"
      "lib (remove_each as ?s1) = lib s" "Static_NATS (remove_each as ?s1) = Static_NATS s"
    using remove_each_frame [of as ?s1] by (simp_all add: l_def removal_errors_def)
  show "fst (Init ctx s) = None"
    using assms(1-3) by (simp add: Init_def Let_def split: option.splits)
  show "removeAccount_calls (snd (Init ctx s)) = removeAccount_calls s @ as"
    using assms(1-3) fr
    by (simp add: Init_def Let_def startLoginAttemptWriter_def as_def [symmetric]
        split: option.splits)
  show "writer (snd (Init ctx s)) = Running" "cleaner (snd (Init ctx s)) = Running"
    using assms(1-3)
    by (simp_all add: Init_def Let_def startLoginAttemptWriter_def split: option.splits)
  show "W (snd (Init ctx s))
          = (case fst r of None \<Rightarrow> snd r
             | Some err \<Rightarrow> logf (Errorx ''initializing NATS client'' err) (snd r))"
    using assms(1-3) fr
    by (simp add: Init_def Let_def startLoginAttemptWriter_def as_def [symmetric] r_def
        split: option.splits)
qed

text \<open>
  C8. When the database opens and the listing succeeds, \<open>Init\<close> returns nil;
  \<open>removeAccount\<close> has been called once for every listed record, in the order of the
  listing, whichever of the calls failed; each failure is in the log; writer and cleaner
  have been started; and when the construction of the NATS client fails, that error is in
  the log, the client stays absent, and \<open>Init\<close> still returns nil.
\<close>

theorem Init_attempts_every_removal:
  "AuthDB s = None \<and> db_open_fault s = None \<and> list_fault s = None \<longrightarrow>
     fst (Init ctx s) = None
     \<and> removeAccount_calls (snd (Init ctx s))
         = removeAccount_calls s @ db_AccountRemove (auth_db_file s)
     \<and> (\<forall>a e. a \<in> set (db_AccountRemove (auth_db_file s)) \<and> remove_fault s a = Some e
          \<longrightarrow> Errorx ''removing old account'' e \<in> set (logs (W (snd (Init ctx s)))))
     \<and> writer (snd (Init ctx s)) = Running \<and> cleaner (snd (Init ctx s)) = Running
     \<and> (\<forall>e. fst (InitNATS (lib s) (Static_NATS s) (W s)) = Some e
          \<longrightarrow> Errorx ''initializing NATS client'' e \<in> set (logs (W (snd (Init ctx s))))
              \<and> globalNATSClient (W (snd (Init ctx s))) = None)"
proof (intro impI, elim conjE)
  assume h: "AuthDB s = None" "db_open_fault s = None" "list_fault s = None"
  let ?as = "db_AccountRemove (auth_db_file s)"
  let ?l = "logs (W s) @ removal_errors s ?as"
  let ?r = "InitNATS (lib s) (Static_NATS s) ((W s)\<lparr>logs := ?l\<rparr>)"
  note ok = Init_ok [OF h, of ctx]
  have il: "fst ?r = fst (InitNATS (lib s) (Static_NATS s) (W s))" "set ?l \<subseteq> set (logs (snd ?r))"
    using InitNATS_logs [where nl = "lib s" and cfg = "Static_NATS s" and w = "W s" and l = ?l]
    by auto
  have sub: "set ?l \<subseteq> set (logs (W (snd (Init ctx s))))"
    using il(2) by (cases "fst ?r") (auto simp: ok(5) logf_def)
  have rem: "\<forall>a e. a \<in> set ?as \<and> remove_fault s a = Some e
          \<longrightarrow> Errorx ''removing old account'' e \<in> set (logs (W (snd (Init ctx s))))"
    using sub removal_error_logged by fastforce
  have nats: "\<forall>e. fst (InitNATS (lib s) (Static_NATS s) (W s)) = Some e
          \<longrightarrow> Errorx ''initializing NATS client'' e \<in> set (logs (W (snd (Init ctx s))))
              \<and> globalNATSClient (W (snd (Init ctx s))) = None"
  proof (intro allI impI)
    fix e assume e: "fst (InitNATS (lib s) (Static_NATS s) (W s)) = Some e"
    then have fe: "fst ?r = Some e" using il(1) by simp
    from InitNATS_error_no_client [OF fe]
    show "Errorx ''initializing NATS client'' e \<in> set (logs (W (snd (Init ctx s))))
              \<and> globalNATSClient (W (snd (Init ctx s))) = None"
      by (simp add: ok(5) fe logf_def)
  qed
  show "fst (Init ctx s) = None
     \<and> removeAccount_calls (snd (Init ctx s))
         = removeAccount_calls s @ db_AccountRemove (auth_db_file s)
     \<and> (\<forall>a e. a \<in> set (db_AccountRemove (auth_db_file s)) \<and> remove_fault s a = Some e
          \<longrightarrow> Errorx ''removing old account'' e \<in> set (logs (W (snd (Init ctx s)))))
     \<and> writer (snd (Init ctx s)) = Running \<and> cleaner (snd (Init ctx s)) = Running
     \<and> (\<forall>e. fst (InitNATS (lib s) (Static_NATS s) (W s)) = Some e
          \<longrightarrow> Errorx ''initializing NATS client'' e \<in> set (logs (W (snd (Init ctx s))))
              \<and> globalNATSClient (W (snd (Init ctx s))) = None)"
    using ok(1-4) rem nats by blast
qed

lemmas init_defs = Init_def InitNATS_def newNATSClient_def removeAccount_def
  startLoginAttemptWriter_def connect_options_def auth_options_def default_timeout_def

theorem Init_attempts_every_removal_witness:
  "AuthDB demo_boot = None \<and> db_open_fault demo_boot = None \<and> list_fault demo_boot = None
   \<and> fst (Init Background demo_boot) = None
   \<and> removeAccount_calls (snd (Init Background demo_boot)) = [''a'', ''b'']
   \<and> Errorx ''removing old account'' (Errno ''directory in use'')
       \<in> set (logs (W (snd (Init Background demo_boot))))
   \<and> Errorx ''initializing NATS client''
         (Errorf ''connecting to NATS'' (Errno ''nats: no servers available''))
       \<in> set (logs (W (snd (Init Background demo_boot))))"
proof -
  have h: "AuthDB demo_boot = None \<and> db_open_fault demo_boot = None
           \<and> list_fault demo_boot = None"
    by (simp add: demo_boot_def demo_system_def)
  have v: "removeAccount_calls demo_boot = []"
      "db_AccountRemove (auth_db_file demo_boot) = [''a'', ''b'']"
      "remove_fault demo_boot ''a'' = Some (Errno ''directory in use'')"
    by (simp_all add: demo_boot_def demo_system_def)
  have n: "fst (InitNATS (lib demo_boot) (Static_NATS demo_boot) (W demo_boot))
             = Some (Errorf ''connecting to NATS'' (Errno ''nats: no servers available''))"
    by (simp add: init_defs sys_defs demo_defs)
  from Init_attempts_every_removal [of demo_boot Background] h
  have c1: "fst (Init Background demo_boot) = None"
    and c2: "removeAccount_calls (snd (Init Background demo_boot))
               = removeAccount_calls demo_boot @ db_AccountRemove (auth_db_file demo_boot)"
    and c3: "\<forall>a e. a \<in> set (db_AccountRemove (auth_db_file demo_boot))
                 \<and> remove_fault demo_boot a = Some e
               \<longrightarrow> Errorx ''removing old account'' e
                     \<in> set (logs (W (snd (Init Background demo_boot))))"
    and c4: "\<forall>e. fst (InitNATS (lib demo_boot) (Static_NATS demo_boot) (W demo_boot)) = Some e
               \<longrightarrow> Errorx ''initializing NATS client'' e
                     \<in> set (logs (W (snd (Init Background demo_boot))))
                   \<and> globalNATSClient (W (snd (Init Background demo_boot))) = None"
    by blast+
  have r: "Errorx ''removing old account'' (Errno ''directory in use'')
             \<in> set (logs (W (snd (Init Background demo_boot))))"
    using c3 [rule_format, of "''a''" "Errno ''directory in use''"] v by simp
  show ?thesis
    using h c1 c2 r c4 n by (simp add: v)
qed

end
